theory Spec2Isabelle
  imports Main "HOL-Library.Word" "HOL-Library.AList"
begin

section \<open>Values of the JavaScript runtime\<close>

text \<open>
  A \<open>Uint8Array\<close> is a list of 8-bit words. A JavaScript string is represented by the
  bytes of its UTF-8 encoding (one \<open>char\<close> per byte), so \<open>TextEncoder().encode\<close> maps
  each character to its byte. A \<open>bigint\<close> is an \<open>int\<close>.
\<close>

type_synonym bytes = "8 word list"

text \<open>
  A thrown value: an error object with its \<open>name\<close> and \<open>message\<close>. \<open>new Error(msg)\<close> has
  the name \<open>Error\<close>; the template literal \<open>`${error}`\<close> renders an error through
  \<open>Error.prototype.toString\<close>.
\<close>

datatype js_error = JsError (err_name: string) (err_message: string)

definition new_Error :: "string \<Rightarrow> js_error" where
  "new_Error msg = JsError ''Error'' msg"

definition error_toString :: "js_error \<Rightarrow> string" where
  "error_toString e =
     (if err_name e = [] then err_message e
      else if err_message e = [] then err_name e
      else err_name e @ '': '' @ err_message e)"

definition TextEncoder_encode :: "string \<Rightarrow> bytes" where
  "TextEncoder_encode s = map (\<lambda>c. of_nat (of_char c)) s"

section \<open>Types of \<open>src/lib/arcium/types.ts\<close>\<close>

datatype PrivacyLevel = PUBLIC | SHIELDED | CONFIDENTIAL | PRIVATE

text \<open>The numeric value of the enum, which the comparisons \<open>privacyLevel >= 2\<close> read.\<close>

fun level_value :: "PrivacyLevel \<Rightarrow> int" where
  "level_value PUBLIC = 0"
| "level_value SHIELDED = 1"
| "level_value CONFIDENTIAL = 2"
| "level_value PRIVATE = 3"

datatype algorithm = AES_128 | AES_256

record EncryptedData =
  data :: bytes
  key :: bytes
  nonce :: bytes
  algorithm :: algorithm

datatype PublicKey = PublicKey (toBase58: string)

record EncryptedPosition =
  positionId :: string
  owner :: PublicKey
  encryptedCollateral :: EncryptedData
  encryptedDebt :: EncryptedData
  encryptedOwner :: "EncryptedData option"
  positionKey :: bytes
  privacyLevel :: PrivacyLevel
  createdAt :: int
  lastUpdated :: int

section \<open>The environment of the client\<close>

text \<open>
  A parsed JSON value; \<open>JObj\<close> lists the properties of the parsed object. A number is
  kept as its literal, since no operation of the client reads one.
\<close>

datatype json =
    JNull
  | JBool bool
  | JNum string
  | JStr string
  | JArr "json list"
  | JObj "(string \<times> json) list"

datatype program = ArciumProgram

text \<open>
  The request that \<open>createHealthFactorComputation\<close> hands to \<open>buildFinalizeCompDefTx\<close>;
  the callback data \<open>JSON.stringify({type, positionId})\<close> is kept by its two fields.
\<close>

record request =
  inputs :: "bytes list"
  callback_type :: string
  callback_positionId :: string
  circuitId :: string

text \<open>
  What the network does with one submission: \<open>buildFinalizeCompDefTx\<close>,
  \<open>sendRawTransaction\<close> or \<open>confirmTransaction\<close> throws, or the transaction is confirmed
  with \<open>confirmation.value.err\<close> (\<open>None\<close> for \<open>null\<close>, else the error as the template
  literal renders it) and \<open>confirmation.value.meta?.logMessages\<close>.
\<close>

datatype submission =
    BuildFails js_error
  | SendFails js_error
  | ConfirmFails js_error
  | Confirmed "string option" "string list option"

text \<open>
  What the client reads from outside itself is a parameter of the model:
  \<^item> \<open>aes_encrypt\<close>, \<open>aes_decrypt\<close>: the ciphers \<open>Aes128Cipher\<close> and \<open>Aes256Cipher\<close> of
    the package \<open>@arcium-hq/client\<close> (constructor and call in one step: algorithm, key,
    text, nonce), which may throw;
  \<^item> \<open>random_source\<close>: the bytes that \<open>crypto.getRandomValues\<close> delivers, in order;
  \<^item> \<open>clock\<close>: the successive readings of \<open>Date.now()\<close>;
  \<^item> \<open>Keypair_generate\<close>: the key pair of \<open>Keypair.generate()\<close>, by its public key in
    base 58; \<open>getArciumProgram\<close>: the program instance, or the exception;
  \<^item> \<open>network\<close>: the outcome of the \<open>n\<close>-th submission, given its request;
  \<^item> \<open>awaitComputationFinalization\<close>: the result text for a computation offset, or the
    exception; \<open>JSON_parse\<close>: the built-in \<open>JSON.parse\<close>.
  The \<open>world\<close> records how much of the random source, the clock and the network has
  been consumed, and how many function objects have been created (\<open>next_fn\<close>).
\<close>

record env =
  aes_encrypt :: "algorithm \<Rightarrow> bytes \<Rightarrow> bytes \<Rightarrow> bytes \<Rightarrow> js_error + bytes"
  aes_decrypt :: "algorithm \<Rightarrow> bytes \<Rightarrow> bytes \<Rightarrow> bytes \<Rightarrow> js_error + bytes"
  random_source :: "nat \<Rightarrow> 8 word"
  clock :: "nat \<Rightarrow> int"
  Keypair_generate :: string
  getArciumProgram :: "js_error + program"
  network :: "nat \<Rightarrow> request \<Rightarrow> submission"
  awaitComputationFinalization :: "int \<Rightarrow> js_error + string"
  JSON_parse :: "string \<Rightarrow> js_error + json"

record world =
  rng_pos :: nat
  clock_pos :: nat
  submissions :: nat
  next_fn :: nat

definition generateRandomBytes :: "env \<Rightarrow> nat \<Rightarrow> world \<Rightarrow> bytes \<times> world" where
  "generateRandomBytes E len w =
     (map (random_source E) [rng_pos w ..< rng_pos w + len],
      w\<lparr>rng_pos := rng_pos w + len\<rparr>)"

definition Date_now :: "env \<Rightarrow> world \<Rightarrow> int \<times> world" where
  "Date_now E w = (clock E (clock_pos w), w\<lparr>clock_pos := clock_pos w + 1\<rparr>)"

section \<open>Numeric encoding\<close>

text \<open>
  Modelled from the spec: \<open>serializeLE\<close> is imported from the package
  \<open>@arcium-hq/client\<close> and its body is not part of the sources. The specification's
  numeric encoding contract describes it: signed and unsigned integers are serialized to a
  fixed-width, little-endian byte string, and a value that does not fit the width is an
  \<open>EncodingError\<close>, not a silent truncation. A value fits \<open>n\<close> bytes when \<open>n\<close> bytes
  represent it, unsigned (from 0 up to \<open>256 ^ n - 1\<close>) or signed in two's complement (from
  \<open>- (256 ^ n div 2)\<close> up to \<open>-1\<close>); byte \<open>i\<close> is the value shifted right by \<open>8 * i\<close> bits
  and masked with 255, so \<open>-1\<close> is written as bytes 255.
\<close>

definition serializeLE :: "int \<Rightarrow> nat \<Rightarrow> js_error + bytes" where
  "serializeLE val lengthInBytes =
     (if - (256 ^ lengthInBytes div 2) \<le> val \<and> val < 256 ^ lengthInBytes
      then Inr (map (\<lambda>i. word_of_int (val div 256 ^ i)) [0 ..< lengthInBytes])
      else Inl (JsError ''EncodingError'' ''value does not fit the byte length''))"

section \<open>\<open>V1TArciumClient\<close>: encryption\<close>

text \<open>
  The argument of \<open>encryptData\<close> has the type \<open>string | bigint | number\<close>. A \<open>number\<close> is
  \<open>JNumber (Some i)\<close> when it is the integer \<open>i\<close>, and \<open>JNumber None\<close> when it is not an
  integer (a fraction, \<open>NaN\<close>, an infinity), where \<open>BigInt(data)\<close> throws a \<open>RangeError\<close>.
\<close>

datatype js_data = JString string | JBigInt int | JNumber "int option"

record encrypt_options =
  opt_algorithm :: "algorithm option"
  opt_key :: "bytes option"

definition js_BigInt_of_number :: "int option \<Rightarrow> js_error + int" where
  "js_BigInt_of_number x =
     (case x of
        None \<Rightarrow> Inl (JsError ''RangeError'' ''The number cannot be converted to a BigInt because it is not an integer'')
      | Some i \<Rightarrow> Inr i)"

text \<open>The step \<open>// Convert data to bytes\<close> of \<open>encryptData\<close>.\<close>

definition dataBytes :: "js_data \<Rightarrow> js_error + bytes" where
  "dataBytes d =
     (case d of
        JString s \<Rightarrow> Inr (TextEncoder_encode s)
      | JBigInt v \<Rightarrow> serializeLE v 64
      | JNumber x \<Rightarrow>
          (case js_BigInt_of_number x of
             Inl e \<Rightarrow> Inl e
           | Inr v \<Rightarrow> serializeLE v 32))"

definition key_length :: "algorithm \<Rightarrow> nat" where
  "key_length a = (if a = AES_256 then 32 else 16)"

text \<open>
  \<open>encryptData\<close>. Every exception inside the \<open>try\<close> block is caught and rethrown as
  \<open>new Error(`Data encryption failed: ${error}`)\<close>. Random bytes drawn before the
  exception stay drawn, so the world is returned in both cases.
\<close>

definition encryptData ::
  "env \<Rightarrow> js_data \<Rightarrow> encrypt_options \<Rightarrow> world \<Rightarrow> (js_error + EncryptedData) \<times> world" where
  "encryptData E d options w =
     (let alg = (case opt_algorithm options of None \<Rightarrow> AES_256 | Some a \<Rightarrow> a) in
      case dataBytes d of
        Inl e \<Rightarrow> (Inl (new_Error (''Data encryption failed: '' @ error_toString e)), w)
      | Inr plain \<Rightarrow>
          (let (encryptionKey, w1) =
                (case opt_key options of
                   Some k \<Rightarrow> (k, w)
                 | None \<Rightarrow> generateRandomBytes E (key_length alg) w);
              (nonce12, w2) = generateRandomBytes E 12 w1
          in (case aes_encrypt E alg encryptionKey plain nonce12 of
                Inl e \<Rightarrow>
                  (Inl (new_Error (''Data encryption failed: '' @ error_toString e)), w2)
              | Inr encryptedData \<Rightarrow>
                  (Inr \<lparr>data = encryptedData, key = encryptionKey,
                        nonce = nonce12, algorithm = alg\<rparr>, w2))))"

text \<open>\<open>decryptData\<close>: the cipher is chosen by the record's algorithm tag.\<close>

definition decryptData :: "env \<Rightarrow> EncryptedData \<Rightarrow> js_error + bytes" where
  "decryptData E encryptedData =
     (case aes_decrypt E (algorithm encryptedData) (key encryptedData)
             (data encryptedData) (nonce encryptedData) of
        Inl e \<Rightarrow> Inl (new_Error (''Data decryption failed: '' @ error_toString e))
      | Inr decryptedData \<Rightarrow> Inr decryptedData)"

section \<open>Built-in conversions between numbers and strings\<close>

definition digit_char :: "int \<Rightarrow> char" where
  "digit_char d = (if d < 10 then char_of (48 + d) else char_of (87 + d))"

text \<open>
  The digits of a number that is not negative, in a radix from 2 to 36, lower case, as
  \<open>toString(radix)\<close> writes them.
\<close>

function radix_string :: "int \<Rightarrow> int \<Rightarrow> string" where
  "radix_string b n =
     (if n < b \<or> b < 2 then [digit_char n]
      else radix_string b (n div b) @ [digit_char (n mod b)])"
  by pat_completeness auto
termination
proof (relation "measure (\<lambda>(b, n). nat n)")
  show "wf (measure (\<lambda>(b, n). nat n))"
    by simp
next
  fix b n :: int
  assume "\<not> (n < b \<or> b < 2)"
  then have "2 \<le> b" and "b \<le> n"
    by simp_all
  then have "n div b < n"
    by (simp add: int_div_less_self)
  moreover have "0 < n"
    using \<open>2 \<le> b\<close> \<open>b \<le> n\<close> by simp
  ultimately show "((b, n div b), (b, n)) \<in> measure (\<lambda>(b, n). nat n)"
    by simp
qed

text \<open>\<open>toString(radix)\<close> of an integer (a \<open>bigint\<close>, or a \<open>number\<close> that is an integer).\<close>

definition int_toString :: "int \<Rightarrow> int \<Rightarrow> string" where
  "int_toString b i =
     (if i < 0 then ''-'' @ radix_string b (- i) else radix_string b i)"

text \<open>\<open>byte.toString(16).padStart(2, '0')\<close>.\<close>

definition hex2 :: "8 word \<Rightarrow> string" where
  "hex2 byte =
     (let s = radix_string 16 (uint byte)
      in replicate (2 - length s) CHR ''0'' @ s)"

definition digit_value :: "char \<Rightarrow> int option" where
  "digit_value c =
     (let n = (of_char c :: int) in
      if 48 \<le> n \<and> n \<le> 57 then Some (n - 48)
      else if 97 \<le> n \<and> n \<le> 122 then Some (n - 87)
      else if 65 \<le> n \<and> n \<le> 90 then Some (n - 55)
      else None)"

fun parse_digits :: "int \<Rightarrow> int \<Rightarrow> string \<Rightarrow> int option" where
  "parse_digits b acc [] = Some acc"
| "parse_digits b acc (c # cs) =
     (case digit_value c of
        None \<Rightarrow> None
      | Some d \<Rightarrow> if d < b then parse_digits b (acc * b + d) cs else None)"

definition parse_radix :: "int \<Rightarrow> string \<Rightarrow> int option" where
  "parse_radix b s = (if s = [] then None else parse_digits b 0 s)"

definition is_prefix :: "string \<Rightarrow> string \<Rightarrow> bool" where
  "is_prefix p s = (take (length p) s = p)"

text \<open>
  The white space that \<open>String.prototype.trim\<close> and \<open>BigInt\<close> strip (\<open>WhiteSpace\<close> and
  \<open>LineTerminator\<close> of the language), each character by the bytes of its UTF-8 encoding:
  tab, line feed, vertical tab, form feed, carriage return, space, U+00A0, U+1680,
  U+2000 to U+200A, U+2028, U+2029, U+202F, U+205F, U+3000 and U+FEFF.
\<close>

definition white_space :: "string list" where
  "white_space =
     [[CHR 0x09], [CHR 0x0A], [CHR 0x0B], [CHR 0x0C], [CHR 0x0D], [CHR 0x20],
      [CHR 0xC2, CHR 0xA0],
      [CHR 0xE1, CHR 0x9A, CHR 0x80]]
     @ map (\<lambda>i. [CHR 0xE2, CHR 0x80, char_of (i :: nat)]) [128 ..< 139]
     @ [[CHR 0xE2, CHR 0x80, CHR 0xA8], [CHR 0xE2, CHR 0x80, CHR 0xA9],
        [CHR 0xE2, CHR 0x80, CHR 0xAF], [CHR 0xE2, CHR 0x81, CHR 0x9F],
        [CHR 0xE3, CHR 0x80, CHR 0x80], [CHR 0xEF, CHR 0xBB, CHR 0xBF]]"

text \<open>Removing, from the front of a string, every leading occurrence of one of the given pieces.\<close>

function strip_leading :: "string list \<Rightarrow> string \<Rightarrow> string" where
  "strip_leading ps s =
     (case find (\<lambda>p. p \<noteq> [] \<and> is_prefix p s) ps of
        None \<Rightarrow> s
      | Some p \<Rightarrow> strip_leading ps (drop (length p) s))"
  by pat_completeness auto
termination
proof (relation "measure (\<lambda>(ps, s). length s)")
  show "wf (measure (\<lambda>(ps, s). length s))"
    by simp
next
  fix ps :: "string list" and s p :: string
  assume "find (\<lambda>p. p \<noteq> [] \<and> is_prefix p s) ps = Some p"
  then have "p \<noteq> []" and "is_prefix p s"
    by (auto simp: find_Some_iff)
  then have "s \<noteq> []"
    by (auto simp: is_prefix_def)
  with \<open>p \<noteq> []\<close> show "((ps, drop (length p) s), (ps, s)) \<in> measure (\<lambda>(ps, s). length s)"
    by simp
qed

text \<open>\<open>trim\<close>: white space is removed at the front and, on the reversed string, at the end.\<close>

definition trim :: "string \<Rightarrow> string" where
  "trim s = rev (strip_leading (map rev white_space) (rev (strip_leading white_space s)))"

text \<open>
  The built-in \<open>BigInt(string)\<close>: white space is trimmed, the empty string is \<open>0n\<close>, a
  prefix \<open>0x\<close>, \<open>0o\<close> or \<open>0b\<close> selects the radix, a decimal literal may carry a sign,
  and anything else is a \<open>SyntaxError\<close>.
\<close>

definition js_BigInt_of_string :: "string \<Rightarrow> js_error + int" where
  "js_BigInt_of_string s =
     (let t = trim s;
          parsed =
            (if t = [] then Some 0
             else if is_prefix ''0x'' t \<or> is_prefix ''0X'' t then parse_radix 16 (drop 2 t)
             else if is_prefix ''0o'' t \<or> is_prefix ''0O'' t then parse_radix 8 (drop 2 t)
             else if is_prefix ''0b'' t \<or> is_prefix ''0B'' t then parse_radix 2 (drop 2 t)
             else if is_prefix ''-'' t then map_option uminus (parse_radix 10 (drop 1 t))
             else if is_prefix ''+'' t then parse_radix 10 (drop 1 t)
             else parse_radix 10 t)
      in case parsed of
           None \<Rightarrow> Inl (JsError ''SyntaxError'' (''Cannot convert '' @ s @ '' to a BigInt''))
         | Some v \<Rightarrow> Inr v)"

section \<open>\<open>V1TArciumClient\<close>: state and positions\<close>

text \<open>
  The arrow function \<open>checkResult\<close> that \<open>registerComputationCallback\<close> creates: the two
  variables it closes over, and \<open>cb_id\<close>, the identity of the function object (every
  evaluation of the arrow function creates a new object).
\<close>

record callback =
  cb_id :: nat
  cb_positionId :: string
  cb_computationType :: string

text \<open>
  The fields of the class. \<open>userKeyPair\<close> is kept by its public key in base 58;
  \<open>computationCallbacks\<close> is the \<open>Map\<close>, in insertion order.
\<close>

record client =
  userKeyPair :: "string option"
  isInitialized :: bool
  computationCallbacks :: "(string \<times> callback) list"
  arciumProgram :: "program option"

definition new_client :: client where
  "new_client = \<lparr>userKeyPair = None, isInitialized = False,
                  computationCallbacks = [], arciumProgram = None\<rparr>"

text \<open>
  \<open>initialize\<close>: the key pair is assigned before \<open>getArciumProgram\<close> is awaited, so it stays
  assigned when that throws.
\<close>

definition initialize :: "env \<Rightarrow> string option \<Rightarrow> client \<Rightarrow> (js_error + unit) \<times> client" where
  "initialize E keyPair c =
     (let c1 = c\<lparr>userKeyPair :=
                   Some (case keyPair of None \<Rightarrow> Keypair_generate E | Some k \<Rightarrow> k)\<rparr>
      in case getArciumProgram E of
           Inl e \<Rightarrow>
             (Inl (new_Error (''Arcium initialization failed: '' @ error_toString e)), c1)
         | Inr p \<Rightarrow> (Inr (), c1\<lparr>arciumProgram := Some p, isInitialized := True\<rparr>))"

definition generatePositionId :: "env \<Rightarrow> world \<Rightarrow> string \<times> world" where
  "generatePositionId E w =
     (let (now, w1) = Date_now E w;
          timestamp = int_toString 36 now;
          (randomBytes, w2) = generateRandomBytes E 8 w1;
          randomString = concat (map hex2 randomBytes)
      in (''pos_'' @ timestamp @ ''_'' @ randomString, w2))"

text \<open>
  \<open>Promise.all\<close> over three promises that are already settled: the first rejection in
  the order of the array rejects the whole.
\<close>

definition Promise_all3 ::
  "js_error + 'a \<Rightarrow> js_error + 'a \<Rightarrow> js_error + 'a \<Rightarrow> js_error + ('a \<times> 'a \<times> 'a)" where
  "Promise_all3 r1 r2 r3 =
     (case r1 of
        Inl e \<Rightarrow> Inl e
      | Inr a \<Rightarrow>
          (case r2 of
             Inl e \<Rightarrow> Inl e
           | Inr b \<Rightarrow> (case r3 of Inl e \<Rightarrow> Inl e | Inr c \<Rightarrow> Inr (a, b, c))))"

text \<open>
  \<open>encryptPositionData\<close>. The three calls of \<open>encryptData\<close> are made one after the other
  while the array is built (an \<open>async\<close> function without \<open>await\<close> runs to its end when
  called), each with \<open>{ key: positionKey }\<close>; all three run even when an earlier one has
  failed. \<open>createdAt\<close> and \<open>lastUpdated\<close> are two calls of \<open>Date.now()\<close>.
\<close>

definition encryptPositionData ::
  "env \<Rightarrow> int \<Rightarrow> int \<Rightarrow> PublicKey \<Rightarrow> client \<Rightarrow> world
     \<Rightarrow> (js_error + EncryptedPosition) \<times> world" where
  "encryptPositionData E collateralAmount debtAmount own c w =
     (if \<not> isInitialized c then (Inl (new_Error ''Arcium client not initialized''), w)
      else
        let (pKey, w1) = generateRandomBytes E 32 w;
            (pId, w2) = generatePositionId E w1;
            opts = \<lparr>opt_algorithm = None, opt_key = Some pKey\<rparr>;
            (r1, w3) = encryptData E (JBigInt collateralAmount) opts w2;
            (r2, w4) = encryptData E (JBigInt debtAmount) opts w3;
            (r3, w5) = encryptData E (JString (toBase58 own)) opts w4
        in (case Promise_all3 r1 r2 r3 of
              Inl e \<Rightarrow>
                (Inl (new_Error (''Position encryption failed: '' @ error_toString e)), w5)
            | Inr (eCollateral, eDebt, eOwner) \<Rightarrow>
                (let (t1, w6) = Date_now E w5;
                     (t2, w7) = Date_now E w6
                 in (Inr \<lparr>positionId = pId, owner = own,
                           encryptedCollateral = eCollateral, encryptedDebt = eDebt,
                           encryptedOwner = Some eOwner, positionKey = pKey,
                           privacyLevel = CONFIDENTIAL,
                           createdAt = t1, lastUpdated = t2\<rparr>, w7))))"

section \<open>\<open>V1TArciumClient\<close>: computations\<close>

record ComputationReference =
  computationOffset :: int

text \<open>\<open>log.includes(sep)\<close>.\<close>

fun includes_str :: "string \<Rightarrow> string \<Rightarrow> bool" where
  "includes_str [] sep = (sep = [])"
| "includes_str (c # cs) sep = (is_prefix sep (c # cs) \<or> includes_str cs sep)"

text \<open>The text after the first occurrence of \<open>sep\<close>, and the text before it.\<close>

fun after_first :: "string \<Rightarrow> string \<Rightarrow> string option" where
  "after_first [] sep = (if sep = [] then Some [] else None)"
| "after_first (c # cs) sep =
     (if is_prefix sep (c # cs) then Some (drop (length sep) (c # cs))
      else after_first cs sep)"

fun before_first :: "string \<Rightarrow> string \<Rightarrow> string" where
  "before_first [] sep = []"
| "before_first (c # cs) sep =
     (if is_prefix sep (c # cs) then [] else c # before_first cs sep)"

text \<open>
  \<open>log.split(sep)[1]\<close> for a separator that is not empty: the piece between the first
  and the second occurrence of \<open>sep\<close>; \<open>None\<close> is \<open>undefined\<close>.
\<close>

definition split_at_1 :: "string \<Rightarrow> string \<Rightarrow> string option" where
  "split_at_1 s sep = map_option (\<lambda>r. before_first r sep) (after_first s sep)"

fun extractComputationReference_loop :: "string list \<Rightarrow> js_error + ComputationReference" where
  "extractComputationReference_loop [] =
     Inl (new_Error ''Could not extract computation reference from transaction'')"
| "extractComputationReference_loop (log # logs) =
     (if includes_str log ''Computation created:'' then
        (case split_at_1 log ''Computation created:'' of
           None \<Rightarrow> Inl (JsError ''TypeError'' ''Cannot read properties of undefined (reading trim)'')
         | Some piece \<Rightarrow>
             (case js_BigInt_of_string (trim piece) of
                Inl e \<Rightarrow> Inl e
              | Inr v \<Rightarrow> Inr \<lparr>computationOffset = v\<rparr>))
      else extractComputationReference_loop logs)"

text \<open>\<open>extractComputationReference\<close>, on \<open>confirmation.value.meta?.logMessages\<close>.\<close>

definition extractComputationReference :: "string list option \<Rightarrow> js_error + ComputationReference" where
  "extractComputationReference logMessages =
     extractComputationReference_loop (case logMessages of None \<Rightarrow> [] | Some logs \<Rightarrow> logs)"

text \<open>
  \<open>registerComputationCallback\<close>: \<open>Map.prototype.set\<close> replaces the value of a key that
  is present and keeps its place, and appends a key that is absent.
\<close>

definition registerComputationCallback ::
  "string \<Rightarrow> string \<Rightarrow> client \<Rightarrow> world \<Rightarrow> client \<times> world" where
  "registerComputationCallback pId computationType c w =
     (let callbackKey = pId @ ''-'' @ computationType;
          checkResult = \<lparr>cb_id = next_fn w, cb_positionId = pId,
                         cb_computationType = computationType\<rparr>
      in (c\<lparr>computationCallbacks :=
               AList.update callbackKey checkResult (computationCallbacks c)\<rparr>,
          w\<lparr>next_fn := next_fn w + 1\<rparr>))"

text \<open>
  \<open>createHealthFactorComputation\<close>. The guard is outside the \<open>try\<close> block. Inside it, the
  request is built, sent and confirmed once; every exception is caught and rethrown as
  \<open>new Error(`Health factor computation failed: ${error}`)\<close>.
\<close>

definition createHealthFactorComputation ::
  "env \<Rightarrow> EncryptedData \<Rightarrow> EncryptedData \<Rightarrow> EncryptedData \<Rightarrow> string \<Rightarrow> client \<Rightarrow> world
     \<Rightarrow> (js_error + ComputationReference) \<times> client \<times> world" where
  "createHealthFactorComputation E eCollateral eDebt ePrice pId c w =
     (if \<not> isInitialized c \<or> arciumProgram c = None
      then (Inl (new_Error ''Arcium client not initialized''), c, w)
      else
        let req = \<lparr>inputs = [data eCollateral, data eDebt, data ePrice],
                     callback_type = ''health_factor'', callback_positionId = pId,
                     circuitId = ''health_factor_v1''\<rparr>;
            w1 = w\<lparr>submissions := submissions w + 1\<rparr>;
            failed = (\<lambda>e. (Inl (new_Error (''Health factor computation failed: ''
                                  @ error_toString e)), c, w1))
        in (case network E (submissions w) req of
              BuildFails e \<Rightarrow> failed e
            | SendFails e \<Rightarrow> failed e
            | ConfirmFails e \<Rightarrow> failed e
            | Confirmed err logMessages \<Rightarrow>
                (case err of
                   Some rendered \<Rightarrow>
                     failed (new_Error (''Computation transaction failed: '' @ rendered))
                 | None \<Rightarrow>
                     (case extractComputationReference logMessages of
                        Inl e \<Rightarrow> failed e
                      | Inr computationRef \<Rightarrow>
                          (let (c2, w2) = registerComputationCallback pId ''health_factor'' c w1
                           in (Inr computationRef, c2, w2))))))"

record PrivateHealthResult =
  res_positionId :: "json option"
  healthFactor :: bytes
  isLiquidatable :: bool
  liquidationThreshold :: bytes
  computedAt :: int
  res_computationId :: string

text \<open>
  The two result materializers. Their argument is \<open>{computationId, positionId, result}\<close>;
  \<open>result\<close> is not read. \<open>positionId\<close> is whatever the payload carries under that name
  (\<open>None\<close> is \<open>undefined\<close>).
\<close>

definition processHealthFactorResult ::
  "env \<Rightarrow> string \<Rightarrow> json option \<Rightarrow> world \<Rightarrow> PrivateHealthResult \<times> world" where
  "processHealthFactorResult E computationId pId w =
     (let (hf, w1) = generateRandomBytes E 32 w;
          (lt, w2) = generateRandomBytes E 32 w1;
          (now, w3) = Date_now E w2
      in (\<lparr>res_positionId = pId, healthFactor = hf, isLiquidatable = False,
           liquidationThreshold = lt, computedAt = now,
           res_computationId = computationId\<rparr>, w3))"

definition processLiquidationResult ::
  "env \<Rightarrow> string \<Rightarrow> json option \<Rightarrow> world \<Rightarrow> PrivateHealthResult \<times> world" where
  "processLiquidationResult E computationId pId w =
     (let (hf, w1) = generateRandomBytes E 32 w;
          (lt, w2) = generateRandomBytes E 32 w1;
          (now, w3) = Date_now E w2
      in (\<lparr>res_positionId = pId, healthFactor = hf, isLiquidatable = True,
           liquidationThreshold = lt, computedAt = now,
           res_computationId = computationId\<rparr>, w3))"

text \<open>
  Reading a property: of \<open>null\<close> it throws a \<open>TypeError\<close>; of an object it is the
  property's value or \<open>undefined\<close>; a boolean, a number, a string and an array have no
  property named \<open>type\<close> or \<open>positionId\<close>.
\<close>

definition get_property :: "json \<Rightarrow> string \<Rightarrow> js_error + json option" where
  "get_property v name =
     (case v of
        JNull \<Rightarrow> Inl (JsError ''TypeError''
                   (''Cannot read properties of null (reading '' @ name @ '')''))
      | JObj props \<Rightarrow> Inr (map_of props name)
      | _ \<Rightarrow> Inr None)"

text \<open>
  \<open>monitorComputation\<close>: the dispatch on \<open>callbackData.type\<close>, with \<open>===\<close>. Every
  exception is caught and rethrown as \<open>new Error(`Computation monitoring failed: ${error}`)\<close>.
\<close>

definition monitorComputation ::
  "env \<Rightarrow> ComputationReference \<Rightarrow> world \<Rightarrow> (js_error + PrivateHealthResult) \<times> world" where
  "monitorComputation E computationRef w =
     (let failed = (\<lambda>e. (Inl (new_Error (''Computation monitoring failed: ''
                                @ error_toString e)), w))
      in case awaitComputationFinalization E (computationOffset computationRef) of
           Inl e \<Rightarrow> failed e
         | Inr result \<Rightarrow>
             (case JSON_parse E result of
                Inl e \<Rightarrow> failed e
              | Inr callbackData \<Rightarrow>
                  (case get_property callbackData ''type'' of
                     Inl e \<Rightarrow> failed e
                   | Inr ty \<Rightarrow>
                       (if ty = Some (JStr ''health_factor'') then
                          (case get_property callbackData ''positionId'' of
                             Inl e \<Rightarrow> failed e
                           | Inr pId \<Rightarrow>
                               (let (r, w1) = processHealthFactorResult E
                                      (int_toString 10 (computationOffset computationRef)) pId w
                                in (Inr r, w1)))
                        else if ty = Some (JStr ''liquidation_check'') then
                          (case get_property callbackData ''positionId'' of
                             Inl e \<Rightarrow> failed e
                           | Inr pId \<Rightarrow>
                               (let (r, w1) = processLiquidationResult E
                                      (int_toString 10 (computationOffset computationRef)) pId w
                                in (Inr r, w1)))
                        else failed (new_Error ''Unknown computation type'')))))"

record ArciumIntegrationStatus =
  status_isInitialized :: bool
  status_publicKey :: "string option"
  supportedAlgorithms :: "string list"
  currentComputations :: nat
  totalComputationsProcessed :: int
  lastComputationTime :: "int option"

text \<open>\<open>getIntegrationStatus\<close>; \<open>x || null\<close> turns the empty string into \<open>null\<close>.\<close>

definition getIntegrationStatus :: "client \<Rightarrow> ArciumIntegrationStatus" where
  "getIntegrationStatus c =
     \<lparr>status_isInitialized = isInitialized c,
      status_publicKey =
        (case userKeyPair c of None \<Rightarrow> None | Some k \<Rightarrow> if k = [] then None else Some k),
      supportedAlgorithms = [''AES-128'', ''AES-256''],
      currentComputations = length (computationCallbacks c),
      totalComputationsProcessed = 0,
      lastComputationTime = None\<rparr>"

section \<open>\<open>V1TAPrivacyClient\<close>: transaction amounts\<close>

record privacy_client =
  arciumClient :: client
  privacyEnabled :: bool

definition setPrivacyEnabled :: "bool \<Rightarrow> privacy_client \<Rightarrow> privacy_client" where
  "setPrivacyEnabled enabled pc = pc\<lparr>privacyEnabled := enabled\<rparr>"

definition encryptTransactionAmount ::
  "env \<Rightarrow> privacy_client \<Rightarrow> int \<Rightarrow> world \<Rightarrow> (js_error + EncryptedData) \<times> world" where
  "encryptTransactionAmount E pc amount w =
     (if \<not> privacyEnabled pc then (Inl (new_Error ''Privacy features are not enabled''), w)
      else encryptData E (JBigInt amount) \<lparr>opt_algorithm = Some AES_256, opt_key = None\<rparr> w)"

text \<open>
  \<open>decryptTransactionAmount\<close>: the decrypted bytes are written as hexadecimal digits in
  the order of the array, and \<open>BigInt('0x' + ...)\<close> reads the digits.
\<close>

definition decryptTransactionAmount :: "env \<Rightarrow> privacy_client \<Rightarrow> EncryptedData \<Rightarrow> js_error + int" where
  "decryptTransactionAmount E pc encryptedData =
     (if \<not> privacyEnabled pc then Inl (new_Error ''Privacy features are not enabled'')
      else
        (case decryptData E encryptedData of
           Inl e \<Rightarrow> Inl e
         | Inr decryptedBytes \<Rightarrow>
             js_BigInt_of_string (''0x'' @ concat (map hex2 decryptedBytes))))"

section \<open>\<open>useArciumPrivacy\<close>: validation of privacy settings\<close>

record validation =
  isValid :: bool
  warnings :: "string list"

definition validatePrivacySettings :: "int \<Rightarrow> int \<Rightarrow> PrivacyLevel \<Rightarrow> validation" where
  "validatePrivacySettings collateralAmount debtAmount level =
     (let (warnings0, isValid0) = ([], True);
          (warnings1, isValid1) =
            (if collateralAmount \<le> 0
             then (warnings0 @ [''Collateral amount must be greater than 0''], False)
             else (warnings0, isValid0));
          (warnings2, isValid2) =
            (if debtAmount < 0
             then (warnings1 @ [''Debt amount cannot be negative''], False)
             else (warnings1, isValid1));
          warnings3 =
            (if level_value level \<ge> 2 \<and> debtAmount = 0
             then warnings2 @ [''Confidential privacy level requires debt amount'']
             else warnings2);
          warnings4 =
            (if level_value level \<ge> 3 \<and> collateralAmount < 1000000000
             then warnings3 @ [''Private privacy level requires minimum 1 SOL collateral'']
             else warnings3)
      in \<lparr>isValid = isValid2, warnings = warnings4\<rparr>)"

section \<open>Notions used in the statements\<close>

text \<open>
  A cipher that works with the nonce the client draws: with a key of the algorithm's
  length and a nonce of 12 bytes, encryption succeeds and decryption under the same key
  and nonce returns the plaintext.
\<close>

definition cipher_ok :: "env \<Rightarrow> bool" where
  "cipher_ok E \<longleftrightarrow>
     (\<forall>alg k p n. length k = key_length alg \<and> length n = 12 \<longrightarrow>
        (\<exists>c. aes_encrypt E alg k p n = Inr c \<and> aes_decrypt E alg k c n = Inr p))"

text \<open>
  The ciphers \<open>Aes128Cipher\<close> and \<open>Aes256Cipher\<close> of the package are AES in counter mode:
  \<open>encrypt\<close> takes a nonce of 8 bytes and throws when the nonce has another length.
\<close>

definition nonce_length_8 :: "env \<Rightarrow> bool" where
  "nonce_length_8 E \<longleftrightarrow>
     (\<forall>alg k p n. length n \<noteq> 8 \<longrightarrow> isl (aes_encrypt E alg k p n))"

text \<open>
  What \<open>encryptData\<close> does with the bytes once the data is converted: key, nonce, cipher,
  record.
\<close>

definition encryptBytes ::
  "env \<Rightarrow> bytes \<Rightarrow> encrypt_options \<Rightarrow> world \<Rightarrow> (js_error + EncryptedData) \<times> world" where
  "encryptBytes E plain options w =
     (let alg = (case opt_algorithm options of None \<Rightarrow> AES_256 | Some a \<Rightarrow> a);
          (encryptionKey, w1) =
            (case opt_key options of
               Some k \<Rightarrow> (k, w)
             | None \<Rightarrow> generateRandomBytes E (key_length alg) w);
          (nonce12, w2) = generateRandomBytes E 12 w1
      in (case aes_encrypt E alg encryptionKey plain nonce12 of
            Inl e \<Rightarrow>
              (Inl (new_Error (''Data encryption failed: '' @ error_toString e)), w2)
          | Inr encryptedData \<Rightarrow>
              (Inr \<lparr>data = encryptedData, key = encryptionKey,
                    nonce = nonce12, algorithm = alg\<rparr>, w2)))"

text \<open>The number that a byte string denotes when read little-endian.\<close>

fun le_value :: "bytes \<Rightarrow> int" where
  "le_value [] = 0"
| "le_value (b # bs) = uint b + 256 * le_value bs"

section \<open>A sample environment\<close>

text \<open>
  A concrete environment on which the statements are evaluated: a toy cipher that adds a
  pad derived from key and nonce to every byte, a random source that counts, a clock that
  advances by one millisecond at every reading, a network whose first submission fails in
  transport and whose later submissions are confirmed, and three finalization payloads.
\<close>

definition sample_pad :: "bytes \<Rightarrow> bytes \<Rightarrow> 8 word" where
  "sample_pad k n = sum_list k + sum_list n"

definition sample_encrypt :: "algorithm \<Rightarrow> bytes \<Rightarrow> bytes \<Rightarrow> bytes \<Rightarrow> js_error + bytes" where
  "sample_encrypt alg k p n =
     (if length k = key_length alg then Inr (map (\<lambda>b. b + sample_pad k n) p)
      else Inl (new_Error ''invalid key length''))"

definition sample_decrypt :: "algorithm \<Rightarrow> bytes \<Rightarrow> bytes \<Rightarrow> bytes \<Rightarrow> js_error + bytes" where
  "sample_decrypt alg k c n =
     (if length k = key_length alg then Inr (map (\<lambda>b. b - sample_pad k n) c)
      else Inl (new_Error ''invalid key length''))"

definition sample_network :: "nat \<Rightarrow> request \<Rightarrow> submission" where
  "sample_network i req =
     (if i = 0 then SendFails (new_Error ''failed to send transaction'')
      else Confirmed None (Some [''Program log: Computation created: 7'']))"

definition sample_finalization :: "int \<Rightarrow> js_error + string" where
  "sample_finalization off =
     (if off = 1 then Inr ''health''
      else if off = 2 then Inr ''liquidation''
      else if off = 3 then Inr ''interest''
      else Inl (new_Error ''computation not found''))"

definition sample_parse :: "string \<Rightarrow> js_error + json" where
  "sample_parse s =
     (if s = ''health''
        then Inr (JObj [(''type'', JStr ''health_factor''), (''positionId'', JStr ''pos_1'')])
      else if s = ''liquidation''
        then Inr (JObj [(''type'', JStr ''liquidation_check''), (''positionId'', JStr ''pos_1'')])
      else if s = ''interest''
        then Inr (JObj [(''type'', JStr ''interest_calculation''), (''positionId'', JStr ''pos_1'')])
      else Inl (JsError ''SyntaxError'' ''Unexpected token''))"

definition sample_env :: env where
  "sample_env =
     \<lparr>aes_encrypt = sample_encrypt, aes_decrypt = sample_decrypt,
      random_source = (\<lambda>i. of_nat i), clock = (\<lambda>i. 1700000000000 + int i),
      Keypair_generate = ''11111111111111111111111111111111'',
      getArciumProgram = Inr ArciumProgram,
      network = sample_network,
      awaitComputationFinalization = sample_finalization,
      JSON_parse = sample_parse\<rparr>"

text \<open>
  The same environment with a cipher in the manner of the package: a nonce of 8 bytes, or
  an exception.
\<close>

definition counter_mode_encrypt :: "algorithm \<Rightarrow> bytes \<Rightarrow> bytes \<Rightarrow> bytes \<Rightarrow> js_error + bytes" where
  "counter_mode_encrypt alg k p n =
     (if length n \<noteq> 8 then Inl (new_Error ''nonce must be of length 8'')
      else sample_encrypt alg k p n)"

definition counter_mode_decrypt :: "algorithm \<Rightarrow> bytes \<Rightarrow> bytes \<Rightarrow> bytes \<Rightarrow> js_error + bytes" where
  "counter_mode_decrypt alg k c n =
     (if length n \<noteq> 8 then Inl (new_Error ''nonce must be of length 8'')
      else sample_decrypt alg k c n)"

definition counter_mode_env :: env where
  "counter_mode_env =
     sample_env\<lparr>aes_encrypt := counter_mode_encrypt, aes_decrypt := counter_mode_decrypt\<rparr>"

definition sample_world :: world where
  "sample_world = \<lparr>rng_pos = 0, clock_pos = 0, submissions = 0, next_fn = 0\<rparr>"

definition sample_client :: client where
  "sample_client = snd (initialize sample_env None new_client)"

definition sample_owner :: PublicKey where
  "sample_owner = PublicKey ''11111111111111111111111111111111''"

definition sample_input :: EncryptedData where
  "sample_input = \<lparr>data = [1, 2, 3], key = replicate 32 0, nonce = replicate 12 0,
                    algorithm = AES_256\<rparr>"

text \<open>
  Two calls of \<open>createHealthFactorComputation\<close> for the same position, one after the
  other, in a world whose submissions are confirmed.
\<close>

definition first_registration :: "(js_error + ComputationReference) \<times> client \<times> world" where
  "first_registration =
     createHealthFactorComputation sample_env sample_input sample_input sample_input ''pos_1''
       sample_client (sample_world\<lparr>submissions := 1\<rparr>)"

definition second_registration :: "(js_error + ComputationReference) \<times> client \<times> world" where
  "second_registration =
     createHealthFactorComputation sample_env sample_input sample_input sample_input ''pos_1''
       (fst (snd first_registration)) (snd (snd first_registration))"

text \<open>
  One call of \<open>createHealthFactorComputation\<close> in the world whose first submission fails
  in transport, and the call that a caller could make after it.
\<close>

definition failed_submission :: "(js_error + ComputationReference) \<times> client \<times> world" where
  "failed_submission =
     createHealthFactorComputation sample_env sample_input sample_input sample_input ''pos_1''
       sample_client sample_world"

definition resubmission :: "(js_error + ComputationReference) \<times> client \<times> world" where
  "resubmission =
     createHealthFactorComputation sample_env sample_input sample_input sample_input ''pos_1''
       (fst (snd failed_submission)) (snd (snd failed_submission))"

section \<open>Facts about the model\<close>

lemma sample_cipher_ok: "cipher_ok sample_env"
  by (simp add: cipher_ok_def sample_env_def sample_encrypt_def sample_decrypt_def comp_def)

text \<open>\<open>encryptData\<close> with a caller's key draws twelve bytes for the nonce and nothing else.\<close>

lemma encryptData_with_key:
  assumes "dataBytes d = Inr plain"
  shows "encryptData E d \<lparr>opt_algorithm = a, opt_key = Some k\<rparr> w =
     (let alg = (case a of None \<Rightarrow> AES_256 | Some x \<Rightarrow> x);
          n = map (random_source E) [rng_pos w ..< rng_pos w + 12];
          w' = w\<lparr>rng_pos := rng_pos w + 12\<rparr>
      in case aes_encrypt E alg k plain n of
           Inl e \<Rightarrow> (Inl (new_Error (''Data encryption failed: '' @ error_toString e)), w')
         | Inr c \<Rightarrow> (Inr \<lparr>data = c, key = k, nonce = n, algorithm = alg\<rparr>, w'))"
  using assms by (simp add: encryptData_def generateRandomBytes_def Let_def)

text \<open>The bytes of \<open>serializeLE\<close>, read little-endian, are the value modulo the width.\<close>

lemma le_bytes_Suc:
  "map (\<lambda>i. (word_of_int (v div 256 ^ i) :: 8 word)) [0 ..< Suc n]
     = word_of_int v # map (\<lambda>i. word_of_int ((v div 256) div 256 ^ i)) [0 ..< n]"
proof -
  have "[0 ..< Suc n] = 0 # map Suc [0 ..< n]"
    by (simp add: upt_conv_Cons map_Suc_upt del: upt_Suc)
  moreover have "v div 256 ^ Suc i = (v div 256) div 256 ^ i" for i
    by (simp add: zdiv_zmult2_eq)
  ultimately show ?thesis
    by (simp add: comp_def del: upt_Suc power_Suc)
qed

lemma le_value_bytes:
  "le_value (map (\<lambda>i. (word_of_int (v div 256 ^ i) :: 8 word)) [0 ..< n]) = v mod 256 ^ n"
proof (induction n arbitrary: v)
  case 0
  show ?case by simp
next
  case (Suc n)
  have "uint (word_of_int v :: 8 word) = v mod 256"
    by (simp add: uint_word_of_int_eq take_bit_eq_mod)
  then have "le_value (map (\<lambda>i. (word_of_int (v div 256 ^ i) :: 8 word)) [0 ..< Suc n])
      = v mod 256 + 256 * ((v div 256) mod 256 ^ n)"
    by (simp only: le_bytes_Suc le_value.simps Suc.IH)
  also have "\<dots> = v mod 256 ^ Suc n"
    by (simp add: zmod_zmult2_eq)
  finally show ?case .
qed

lemma serializeLE_fits:
  assumes "- (256 ^ n div 2) \<le> v" and "v < 256 ^ n"
  shows "\<exists>bs. serializeLE v n = Inr bs \<and> length bs = n
           \<and> le_value bs = (if 0 \<le> v then v else v + 256 ^ n)"
proof -
  have "v mod 256 ^ n = (if 0 \<le> v then v else v + 256 ^ n)"
  proof (cases "0 \<le> v")
    case True
    with assms show ?thesis by simp
  next
    case False
    have "(256 :: int) ^ n div 2 \<le> 256 ^ n"
      by (rule order_trans [OF zdiv_mono2 [of "256 ^ n" 1 2]]) simp_all
    with assms False have "0 \<le> v + 256 ^ n" and "v + 256 ^ n < 256 ^ n"
      by simp_all
    then have "(v + 256 ^ n) mod 256 ^ n = v + 256 ^ n"
      by (rule mod_pos_pos_trivial)
    with False show ?thesis by simp
  qed
  with assms show ?thesis
    by (simp add: serializeLE_def le_value_bytes)
qed

lemma serializeLE_not_fits:
  assumes "\<not> (- (256 ^ n div 2) \<le> v \<and> v < 256 ^ n)"
  shows "serializeLE v n = Inl (JsError ''EncodingError'' ''value does not fit the byte length'')"
  using assms by (simp add: serializeLE_def)

text \<open>After the conversion to bytes, \<open>encryptData\<close> goes on with the bytes alone.\<close>

lemma encryptData_encryptBytes:
  assumes "dataBytes d = Inr plain"
  shows "encryptData E d options w = encryptBytes E plain options w"
  using assms by (simp add: encryptData_def encryptBytes_def)

lemma encryptData_dataBytes_fails:
  assumes "dataBytes d = Inl e"
  shows "encryptData E d options w
           = (Inl (new_Error (''Data encryption failed: '' @ error_toString e)), w)"
  using assms by (simp add: encryptData_def)

lemma encryptData_ok:
  assumes ok: "cipher_ok E" and plain: "dataBytes d = Inr plain"
    and len: "case opt_key options of None \<Rightarrow> True
              | Some k \<Rightarrow> length k = key_length (case opt_algorithm options of None \<Rightarrow> AES_256 | Some a \<Rightarrow> a)"
  shows "\<exists>enc. fst (encryptData E d options w) = Inr enc \<and> decryptData E enc = Inr plain"
proof -
  define alg where "alg = (case opt_algorithm options of None \<Rightarrow> AES_256 | Some a \<Rightarrow> a)"
  define kw where "kw = (case opt_key options of Some k \<Rightarrow> (k, w)
                          | None \<Rightarrow> generateRandomBytes E (key_length alg) w)"
  define nw where "nw = generateRandomBytes E 12 (snd kw)"
  have "length (fst kw) = key_length alg"
    using len by (cases "opt_key options") (simp_all add: kw_def alg_def generateRandomBytes_def)
  moreover have "length (fst nw) = 12"
    by (simp add: nw_def generateRandomBytes_def)
  ultimately obtain c where
    enc: "aes_encrypt E alg (fst kw) plain (fst nw) = Inr c" and
    dec: "aes_decrypt E alg (fst kw) c (fst nw) = Inr plain"
    using ok unfolding cipher_ok_def by blast
  have "fst (encryptData E d options w)
          = Inr \<lparr>data = c, key = fst kw, nonce = fst nw, algorithm = alg\<rparr>"
    using plain enc
    by (simp add: encryptData_def Let_def split_def alg_def [symmetric] kw_def [symmetric]
        nw_def [symmetric])
  moreover have "decryptData E \<lparr>data = c, key = fst kw, nonce = fst nw, algorithm = alg\<rparr>
          = Inr plain"
    using dec by (simp add: decryptData_def)
  ultimately show ?thesis by blast
qed

text \<open>
  The 64 bytes of the amount 1, written as hexadecimal digits in the order of the array
  and read by \<open>BigInt\<close>: the first byte becomes the most significant one.
\<close>

lemma big_endian_reading_of_one:
  "js_BigInt_of_string
     (''0x'' @ concat (map hex2 (map (\<lambda>i. (word_of_int (1 div 256 ^ i) :: 8 word)) [0 ..< 64])))
   = Inr (2 ^ 504)"
  by code_simp

text \<open>
  A successful run of \<open>encryptPositionData\<close>: 32 random bytes for the key, 8 for the
  position id, then one nonce of 12 bytes for each of the three fields; the clock is read
  once for the position id and twice for the two time stamps.
\<close>

lemma encryptPositionData_success:
  assumes init: "isInitialized c" and ok: "cipher_ok E"
    and col: "- (256 ^ 64 div 2) \<le> col" "col < 256 ^ 64"
    and debt: "- (256 ^ 64 div 2) \<le> debt" "debt < 256 ^ 64"
  shows "\<exists>pos w'. encryptPositionData E col debt own c w = (Inr pos, w')
     \<and> privacyLevel pos = CONFIDENTIAL
     \<and> positionKey pos = map (random_source E) [rng_pos w ..< rng_pos w + 32]
     \<and> key (encryptedCollateral pos) = positionKey pos
     \<and> key (encryptedDebt pos) = positionKey pos
     \<and> map_option key (encryptedOwner pos) = Some (positionKey pos)
     \<and> nonce (encryptedCollateral pos) = map (random_source E) [rng_pos w + 40 ..< rng_pos w + 52]
     \<and> nonce (encryptedDebt pos) = map (random_source E) [rng_pos w + 52 ..< rng_pos w + 64]
     \<and> map_option nonce (encryptedOwner pos)
          = Some (map (random_source E) [rng_pos w + 64 ..< rng_pos w + 76])
     \<and> createdAt pos = clock E (clock_pos w + 1)
     \<and> lastUpdated pos = clock E (clock_pos w + 2)"
proof -
  let ?pk = "map (random_source E) [rng_pos w ..< rng_pos w + 32]"
  let ?n1 = "map (random_source E) [rng_pos w + 40 ..< rng_pos w + 52]"
  let ?n2 = "map (random_source E) [rng_pos w + 52 ..< rng_pos w + 64]"
  let ?n3 = "map (random_source E) [rng_pos w + 64 ..< rng_pos w + 76]"
  have klen: "length ?pk = key_length AES_256"
    by (simp add: key_length_def)
  have nlen: "length ?n1 = 12" "length ?n2 = 12" "length ?n3 = 12"
    by simp_all
  obtain b1 where b1: "dataBytes (JBigInt col) = Inr b1"
    using col by (auto simp: dataBytes_def serializeLE_def)
  obtain b2 where b2: "dataBytes (JBigInt debt) = Inr b2"
    using debt by (auto simp: dataBytes_def serializeLE_def)
  have b3: "dataBytes (JString (toBase58 own)) = Inr (TextEncoder_encode (toBase58 own))"
    by (simp add: dataBytes_def)
  from ok klen nlen obtain c1 where c1: "aes_encrypt E AES_256 ?pk b1 ?n1 = Inr c1"
    unfolding cipher_ok_def by blast
  from ok klen nlen obtain c2 where c2: "aes_encrypt E AES_256 ?pk b2 ?n2 = Inr c2"
    unfolding cipher_ok_def by blast
  from ok klen nlen obtain c3 where
    c3: "aes_encrypt E AES_256 ?pk (TextEncoder_encode (toBase58 own)) ?n3 = Inr c3"
    unfolding cipher_ok_def by blast
  show ?thesis
    using init c1 c2 c3
    by (simp add: encryptPositionData_def generateRandomBytes_def generatePositionId_def
        Date_now_def encryptData_with_key [OF b1] encryptData_with_key [OF b2]
        encryptData_with_key [OF b3] Promise_all3_def Let_def split_def add.assoc)
qed


lemma sample_client_initialized: "isInitialized sample_client"
  by (simp add: sample_client_def initialize_def sample_env_def new_client_def)

text \<open>
  A confirmed submission whose log carries a reference: the callback is registered and the
  reference returned, whether or not the key was registered before.
\<close>

lemma createHealthFactorComputation_confirmed:
  assumes "isInitialized c" and "arciumProgram c \<noteq> None"
    and "network E (submissions w)
           \<lparr>inputs = [data ec, data ed, data ep], callback_type = ''health_factor'',
            callback_positionId = pId, circuitId = ''health_factor_v1''\<rparr> = Confirmed None logs"
    and "extractComputationReference logs = Inr r"
  shows "createHealthFactorComputation E ec ed ep pId c w =
     (Inr r,
      c\<lparr>computationCallbacks :=
           AList.update (pId @ ''-health_factor'')
             \<lparr>cb_id = next_fn w, cb_positionId = pId, cb_computationType = ''health_factor''\<rparr>
             (computationCallbacks c)\<rparr>,
      w\<lparr>submissions := submissions w + 1, next_fn := next_fn w + 1\<rparr>)"
  using assms
  by (simp add: createHealthFactorComputation_def registerComputationCallback_def Let_def)

lemma sample_reference:
  "extractComputationReference (Some [''Program log: Computation created: 7''])
     = Inr \<lparr>computationOffset = 7\<rparr>"
  by code_simp

lemma first_registration_value:
  "first_registration =
     (Inr \<lparr>computationOffset = 7\<rparr>,
      sample_client\<lparr>computationCallbacks :=
        [(''pos_1-health_factor'',
          \<lparr>cb_id = 0, cb_positionId = ''pos_1'', cb_computationType = ''health_factor''\<rparr>)]\<rparr>,
      \<lparr>rng_pos = 0, clock_pos = 0, submissions = 2, next_fn = 1\<rparr>)"
proof -
  have c: "computationCallbacks sample_client = []" "arciumProgram sample_client \<noteq> None"
    by (simp_all add: sample_client_def initialize_def sample_env_def new_client_def)
  have n: "network sample_env (submissions (sample_world\<lparr>submissions := 1\<rparr>)) req
             = Confirmed None (Some [''Program log: Computation created: 7''])" for req
    by (simp add: sample_env_def sample_network_def)
  from createHealthFactorComputation_confirmed [OF sample_client_initialized c(2) n sample_reference]
  have "first_registration =
     (Inr \<lparr>computationOffset = 7\<rparr>,
      sample_client\<lparr>computationCallbacks :=
        AList.update (''pos_1'' @ ''-health_factor'')
          \<lparr>cb_id = next_fn (sample_world\<lparr>submissions := 1\<rparr>), cb_positionId = ''pos_1'',
           cb_computationType = ''health_factor''\<rparr>
          (computationCallbacks sample_client)\<rparr>,
      sample_world\<lparr>submissions := 1\<rparr>
        \<lparr>submissions := submissions (sample_world\<lparr>submissions := 1\<rparr>) + 1,
         next_fn := next_fn (sample_world\<lparr>submissions := 1\<rparr>) + 1\<rparr>)"
    unfolding first_registration_def .
  then show ?thesis
    by (simp add: c sample_world_def eval_nat_numeral)
qed

lemma second_registration_value:
  "second_registration =
     (Inr \<lparr>computationOffset = 7\<rparr>,
      sample_client\<lparr>computationCallbacks :=
        [(''pos_1-health_factor'',
          \<lparr>cb_id = 1, cb_positionId = ''pos_1'', cb_computationType = ''health_factor''\<rparr>)]\<rparr>,
      \<lparr>rng_pos = 0, clock_pos = 0, submissions = 3, next_fn = 2\<rparr>)"
proof -
  let ?c = "sample_client\<lparr>computationCallbacks :=
        [(''pos_1-health_factor'',
          \<lparr>cb_id = 0, cb_positionId = ''pos_1'', cb_computationType = ''health_factor''\<rparr>)]\<rparr>"
  let ?w = "\<lparr>rng_pos = 0, clock_pos = 0, submissions = 2, next_fn = 1\<rparr>"
  have c: "isInitialized ?c" "arciumProgram ?c \<noteq> None"
    by (simp_all add: sample_client_def initialize_def sample_env_def new_client_def)
  have n: "network sample_env (submissions ?w) req
             = Confirmed None (Some [''Program log: Computation created: 7''])" for req
    by (simp add: sample_env_def sample_network_def)
  from createHealthFactorComputation_confirmed [OF c n sample_reference]
  have "createHealthFactorComputation sample_env sample_input sample_input sample_input ''pos_1'' ?c ?w =
     (Inr \<lparr>computationOffset = 7\<rparr>,
      ?c\<lparr>computationCallbacks :=
        AList.update (''pos_1'' @ ''-health_factor'')
          \<lparr>cb_id = next_fn ?w, cb_positionId = ''pos_1'',
           cb_computationType = ''health_factor''\<rparr>
          (computationCallbacks ?c)\<rparr>,
      ?w\<lparr>submissions := submissions ?w + 1, next_fn := next_fn ?w + 1\<rparr>)" .
  then show ?thesis
    unfolding second_registration_def first_registration_value
    by (simp add: eval_nat_numeral)
qed

lemma length_AList_update:
  "length (AList.update k v al)
     = (if k \<in> fst ` set al then length al else Suc (length al))"
  by (induction al) auto

text \<open>The outcome of the one call in the world whose first submission fails.\<close>

lemma failed_submission_value:
  "failed_submission =
     (Inl (new_Error ''Health factor computation failed: Error: failed to send transaction''),
      sample_client, \<lparr>rng_pos = 0, clock_pos = 0, submissions = 1, next_fn = 0\<rparr>)"
proof -
  have c: "arciumProgram sample_client \<noteq> None"
    by (simp add: sample_client_def initialize_def sample_env_def new_client_def)
  show ?thesis
    using sample_client_initialized c
    by (simp add: failed_submission_def createHealthFactorComputation_def Let_def
        sample_env_def sample_network_def sample_world_def new_Error_def error_toString_def)
qed

lemma sample_offsets_toString:
  "int_toString 10 1 = ''1''" "int_toString 10 2 = ''2''" "int_toString 10 3 = ''3''"
  by code_simp+

section \<open>Round trip of encryption\<close>

text \<open>
  Claim C1 asks that \<open>decryptData\<close> applied to the result of \<open>encryptData\<close> returns the
  bytes that were encrypted, for every byte string and every key of the algorithm's
  length. \<open>encryptData\<close> hands the cipher a nonce of 12 bytes, whatever the data, the
  options and the state of the random source. With ciphers that take a nonce of 8 bytes,
  as those of the package, every call of \<open>encryptData\<close> therefore fails with
  \<open>Data encryption failed: ...\<close>, and there is no record that \<open>decryptData\<close> could be
  applied to.
\<close>

theorem encryptData_nonce_rejected:
  assumes "nonce_length_8 E"
  shows "\<exists>e. fst (encryptData E d options w)
           = Inl (new_Error (''Data encryption failed: '' @ error_toString e))"
proof (cases "dataBytes d")
  case (Inl e)
  then show ?thesis
    by (auto simp: encryptData_def)
next
  case (Inr plain)
  define alg where "alg = (case opt_algorithm options of None \<Rightarrow> AES_256 | Some a \<Rightarrow> a)"
  define kw where "kw = (case opt_key options of Some k \<Rightarrow> (k, w)
                          | None \<Rightarrow> generateRandomBytes E (key_length alg) w)"
  define nw where "nw = generateRandomBytes E 12 (snd kw)"
  have "length (fst nw) \<noteq> 8"
    by (simp add: nw_def generateRandomBytes_def)
  with assms have "isl (aes_encrypt E alg (fst kw) plain (fst nw))"
    unfolding nonce_length_8_def by blast
  then obtain e where "aes_encrypt E alg (fst kw) plain (fst nw) = Inl e"
    by (auto simp: isl_def)
  with Inr have "fst (encryptData E d options w)
      = Inl (new_Error (''Data encryption failed: '' @ error_toString e))"
    by (simp add: encryptData_def Let_def split_def alg_def [symmetric] kw_def [symmetric]
        nw_def [symmetric])
  then show ?thesis by blast
qed

theorem encryptData_nonce_rejected_witness:
  "nonce_length_8 counter_mode_env
   \<and> (\<exists>e. fst (encryptData counter_mode_env (JString ''hello'')
                  \<lparr>opt_algorithm = Some AES_256, opt_key = Some (replicate 32 7)\<rparr> sample_world)
           = Inl (new_Error (''Data encryption failed: '' @ error_toString e)))"
proof -
  have h: "nonce_length_8 counter_mode_env"
    by (simp add: nonce_length_8_def counter_mode_env_def counter_mode_encrypt_def)
  from encryptData_nonce_rejected [OF h] show ?thesis
    using h by blast
qed

section \<open>Validation of privacy settings\<close>

text \<open>
  Claim C7. For every collateral amount, debt amount and privacy level,
  \<open>validatePrivacySettings\<close> returns \<open>isValid = false\<close> exactly when a hard constraint is
  violated (collateral at most 0, or debt below 0), whatever the level; the two advisory
  cases (level at least CONFIDENTIAL with zero debt, level at least PRIVATE with
  collateral below 1000000000) only append a warning and leave \<open>isValid\<close> as it is.
\<close>

theorem validatePrivacySettings_hard_constraints:
  "isValid (validatePrivacySettings collateralAmount debtAmount level)
     = (0 < collateralAmount \<and> 0 \<le> debtAmount)
   \<and> warnings (validatePrivacySettings collateralAmount debtAmount level)
     = (if collateralAmount \<le> 0 then [''Collateral amount must be greater than 0''] else [])
       @ (if debtAmount < 0 then [''Debt amount cannot be negative''] else [])
       @ (if level_value level \<ge> 2 \<and> debtAmount = 0
          then [''Confidential privacy level requires debt amount''] else [])
       @ (if level_value level \<ge> 3 \<and> collateralAmount < 1000000000
          then [''Private privacy level requires minimum 1 SOL collateral''] else [])"
  by (simp add: validatePrivacySettings_def)

section \<open>The integration status\<close>

text \<open>
  Claim C10. In every state of the client, whatever has been submitted, monitored or
  completed, \<open>getIntegrationStatus\<close> returns \<open>totalComputationsProcessed\<close> equal to 0 and
  \<open>lastComputationTime\<close> absent.
\<close>

theorem getIntegrationStatus_counters_constant:
  "totalComputationsProcessed (getIntegrationStatus c) = 0
   \<and> lastComputationTime (getIntegrationStatus c) = None"
  by (simp add: getIntegrationStatus_def)

section \<open>Numeric encoding before encryption\<close>

text \<open>
  Claim C3. Before encryption an integer input, signed or unsigned, is serialized to a
  little-endian byte string of fixed width: 64 bytes for a \<open>bigint\<close>, 32 bytes for a
  \<open>number\<close> (a negative value in two's complement), and \<open>encryptData\<close> goes on with exactly
  these bytes. A value that does not fit the width makes \<open>encryptData\<close> fail instead of
  truncating: the encoder's \<open>EncodingError\<close> is caught and rethrown by \<open>encryptData\<close> as
  \<open>Data encryption failed: EncodingError: ...\<close>, before any random byte is drawn and
  before the cipher is called.
\<close>

theorem encryptData_numeric_encoding:
  "(- (256 ^ 64 div 2) \<le> v \<and> v < 256 ^ 64 \<longrightarrow>
      (\<exists>bs. length bs = 64 \<and> le_value bs = (if 0 \<le> v then v else v + 256 ^ 64)
          \<and> encryptData E (JBigInt v) options w = encryptBytes E bs options w))
   \<and> (\<not> (- (256 ^ 64 div 2) \<le> v \<and> v < 256 ^ 64) \<longrightarrow>
      encryptData E (JBigInt v) options w
        = (Inl (new_Error ''Data encryption failed: EncodingError: value does not fit the byte length''), w))
   \<and> (- (256 ^ 32 div 2) \<le> v \<and> v < 256 ^ 32 \<longrightarrow>
      (\<exists>bs. length bs = 32 \<and> le_value bs = (if 0 \<le> v then v else v + 256 ^ 32)
          \<and> encryptData E (JNumber (Some v)) options w = encryptBytes E bs options w))
   \<and> (\<not> (- (256 ^ 32 div 2) \<le> v \<and> v < 256 ^ 32) \<longrightarrow>
      encryptData E (JNumber (Some v)) options w
        = (Inl (new_Error ''Data encryption failed: EncodingError: value does not fit the byte length''), w))"
proof -
  have big: "\<exists>bs. length bs = 64 \<and> le_value bs = (if 0 \<le> v then v else v + 256 ^ 64)
          \<and> encryptData E (JBigInt v) options w = encryptBytes E bs options w"
    if "- (256 ^ 64 div 2) \<le> v \<and> v < 256 ^ 64"
  proof -
    from that serializeLE_fits [of 64 v] obtain bs where
      bs: "serializeLE v 64 = Inr bs" "length bs = 64"
        "le_value bs = (if 0 \<le> v then v else v + 256 ^ 64)"
      by blast
    from bs(1) have "dataBytes (JBigInt v) = Inr bs"
      by (simp add: dataBytes_def)
    from encryptData_encryptBytes [OF this] bs(2,3) show ?thesis
      by blast
  qed
  have num: "\<exists>bs. length bs = 32 \<and> le_value bs = (if 0 \<le> v then v else v + 256 ^ 32)
          \<and> encryptData E (JNumber (Some v)) options w = encryptBytes E bs options w"
    if "- (256 ^ 32 div 2) \<le> v \<and> v < 256 ^ 32"
  proof -
    from that serializeLE_fits [of 32 v] obtain bs where
      bs: "serializeLE v 32 = Inr bs" "length bs = 32"
        "le_value bs = (if 0 \<le> v then v else v + 256 ^ 32)"
      by blast
    from bs(1) have "dataBytes (JNumber (Some v)) = Inr bs"
      by (simp add: dataBytes_def js_BigInt_of_number_def)
    from encryptData_encryptBytes [OF this] bs(2,3) show ?thesis
      by blast
  qed
  have bigfail: "encryptData E (JBigInt v) options w
        = (Inl (new_Error ''Data encryption failed: EncodingError: value does not fit the byte length''), w)"
    if "\<not> (- (256 ^ 64 div 2) \<le> v \<and> v < 256 ^ 64)"
  proof -
    from serializeLE_not_fits [OF that] have "dataBytes (JBigInt v)
          = Inl (JsError ''EncodingError'' ''value does not fit the byte length'')"
      by (simp add: dataBytes_def)
    from encryptData_dataBytes_fails [OF this] show ?thesis
      by (simp add: error_toString_def)
  qed
  have numfail: "encryptData E (JNumber (Some v)) options w
        = (Inl (new_Error ''Data encryption failed: EncodingError: value does not fit the byte length''), w)"
    if "\<not> (- (256 ^ 32 div 2) \<le> v \<and> v < 256 ^ 32)"
  proof -
    from serializeLE_not_fits [OF that] have "dataBytes (JNumber (Some v))
          = Inl (JsError ''EncodingError'' ''value does not fit the byte length'')"
      by (simp add: dataBytes_def js_BigInt_of_number_def)
    from encryptData_dataBytes_fails [OF this] show ?thesis
      by (simp add: error_toString_def)
  qed
  from big bigfail num numfail show ?thesis
    by blast
qed

theorem encryptData_numeric_encoding_witness:
  "- (256 ^ 64 div 2) \<le> (- 1 :: int) \<and> (- 1 :: int) < 256 ^ 64
   \<and> (\<exists>bs. length bs = 64 \<and> le_value bs = 2 ^ 512 - 1
          \<and> encryptData counter_mode_env (JBigInt (- 1))
                \<lparr>opt_algorithm = None, opt_key = None\<rparr> sample_world
              = encryptBytes counter_mode_env bs \<lparr>opt_algorithm = None, opt_key = None\<rparr> sample_world)
   \<and> - (256 ^ 32 div 2) \<le> (- 1 :: int) \<and> (- 1 :: int) < 256 ^ 32
   \<and> (\<exists>bs. length bs = 32 \<and> le_value bs = 2 ^ 256 - 1
          \<and> encryptData counter_mode_env (JNumber (Some (- 1)))
                \<lparr>opt_algorithm = None, opt_key = None\<rparr> sample_world
              = encryptBytes counter_mode_env bs \<lparr>opt_algorithm = None, opt_key = None\<rparr> sample_world)
   \<and> (256 :: int) ^ 64 \<le> 2 ^ 512
   \<and> encryptData counter_mode_env (JBigInt (2 ^ 512))
        \<lparr>opt_algorithm = None, opt_key = None\<rparr> sample_world
      = (Inl (new_Error ''Data encryption failed: EncodingError: value does not fit the byte length''),
         sample_world)
   \<and> (- (2 ^ 300) :: int) < - (256 ^ 32 div 2)
   \<and> encryptData counter_mode_env (JNumber (Some (- (2 ^ 300))))
        \<lparr>opt_algorithm = None, opt_key = None\<rparr> sample_world
      = (Inl (new_Error ''Data encryption failed: EncodingError: value does not fit the byte length''),
         sample_world)"
proof -
  have h: "- (256 ^ 64 div 2) \<le> (- 1 :: int) \<and> (- 1 :: int) < 256 ^ 64"
    "- (256 ^ 32 div 2) \<le> (- 1 :: int) \<and> (- 1 :: int) < 256 ^ 32"
    "(256 :: int) ^ 64 \<le> 2 ^ 512" "(- (2 ^ 300) :: int) < - (256 ^ 32 div 2)"
    by simp_all
  have n: "\<not> (- (256 ^ 64 div 2) \<le> (2 ^ 512 :: int) \<and> (2 ^ 512 :: int) < 256 ^ 64)"
    "\<not> (- (256 ^ 32 div 2) \<le> (- (2 ^ 300) :: int) \<and> (- (2 ^ 300) :: int) < 256 ^ 32)"
    by simp_all
  from encryptData_numeric_encoding [of "- 1" counter_mode_env
      "\<lparr>opt_algorithm = None, opt_key = None\<rparr>" sample_world]
  have a: "\<exists>bs. length bs = 64 \<and> le_value bs = 2 ^ 512 - 1
          \<and> encryptData counter_mode_env (JBigInt (- 1))
                \<lparr>opt_algorithm = None, opt_key = None\<rparr> sample_world
              = encryptBytes counter_mode_env bs \<lparr>opt_algorithm = None, opt_key = None\<rparr> sample_world"
    and b: "\<exists>bs. length bs = 32 \<and> le_value bs = 2 ^ 256 - 1
          \<and> encryptData counter_mode_env (JNumber (Some (- 1)))
                \<lparr>opt_algorithm = None, opt_key = None\<rparr> sample_world
              = encryptBytes counter_mode_env bs \<lparr>opt_algorithm = None, opt_key = None\<rparr> sample_world"
    using h(1,2) by simp_all
  from encryptData_numeric_encoding [of "2 ^ 512" counter_mode_env
      "\<lparr>opt_algorithm = None, opt_key = None\<rparr>" sample_world] n(1)
  have c: "encryptData counter_mode_env (JBigInt (2 ^ 512))
        \<lparr>opt_algorithm = None, opt_key = None\<rparr> sample_world
      = (Inl (new_Error ''Data encryption failed: EncodingError: value does not fit the byte length''),
         sample_world)"
    by blast
  from encryptData_numeric_encoding [of "- (2 ^ 300)" counter_mode_env
      "\<lparr>opt_algorithm = None, opt_key = None\<rparr>" sample_world] n(2)
  have d: "encryptData counter_mode_env (JNumber (Some (- (2 ^ 300))))
        \<lparr>opt_algorithm = None, opt_key = None\<rparr> sample_world
      = (Inl (new_Error ''Data encryption failed: EncodingError: value does not fit the byte length''),
         sample_world)"
    by blast
  from h a b c d show ?thesis
    by blast
qed

section \<open>Round trip of transaction amounts\<close>

text \<open>
  Claim C4 asks that \<open>decryptTransactionAmount\<close> applied to the result of
  \<open>encryptTransactionAmount amount\<close> returns \<open>amount\<close>, for every amount from 0 that fits
  64 bytes. For the amount 1 it does not: the amount is serialized little-endian, and
  \<open>decryptTransactionAmount\<close> reads the decrypted bytes as hexadecimal digits with the
  first byte in front, that is big-endian. With privacy enabled and ciphers that accept
  the nonce of 12 bytes, the amount 1 comes back as \<open>2 ^ 504\<close>.
\<close>

theorem decryptTransactionAmount_reads_big_endian:
  assumes "cipher_ok E" and "privacyEnabled pc"
  shows "\<exists>enc. fst (encryptTransactionAmount E pc 1 w) = Inr enc
           \<and> decryptTransactionAmount E pc enc = Inr (2 ^ 504)"
proof -
  let ?bs = "map (\<lambda>i. (word_of_int (1 div 256 ^ i) :: 8 word)) [0 ..< 64]"
  have "dataBytes (JBigInt 1) = Inr ?bs"
    by (simp add: dataBytes_def serializeLE_def)
  from encryptData_ok [OF \<open>cipher_ok E\<close> this,
      of "\<lparr>opt_algorithm = Some AES_256, opt_key = None\<rparr>" w]
  obtain enc where
    enc: "fst (encryptData E (JBigInt 1) \<lparr>opt_algorithm = Some AES_256, opt_key = None\<rparr> w) = Inr enc"
    and dec: "decryptData E enc = Inr ?bs"
    by auto
  have "fst (encryptTransactionAmount E pc 1 w) = Inr enc"
    using enc \<open>privacyEnabled pc\<close> by (simp add: encryptTransactionAmount_def)
  moreover have "decryptTransactionAmount E pc enc = Inr (2 ^ 504)"
    using dec \<open>privacyEnabled pc\<close> big_endian_reading_of_one
    by (simp only: decryptTransactionAmount_def not_True_eq_False if_False sum.case)
  ultimately show ?thesis by blast
qed

theorem decryptTransactionAmount_reads_big_endian_witness:
  "cipher_ok sample_env
   \<and> privacyEnabled \<lparr>arciumClient = sample_client, privacyEnabled = True\<rparr>
   \<and> (\<exists>enc. fst (encryptTransactionAmount sample_env
                   \<lparr>arciumClient = sample_client, privacyEnabled = True\<rparr> 1 sample_world) = Inr enc
           \<and> decryptTransactionAmount sample_env
                   \<lparr>arciumClient = sample_client, privacyEnabled = True\<rparr> enc = Inr (2 ^ 504))"
proof -
  have p: "privacyEnabled \<lparr>arciumClient = sample_client, privacyEnabled = True\<rparr>"
    by simp
  from decryptTransactionAmount_reads_big_endian [OF sample_cipher_ok p, of sample_world]
  show ?thesis using sample_cipher_ok p by blast
qed

section \<open>Opening a position\<close>

text \<open>
  Claim C2 asks that \<open>encryptPositionData\<close>, on an initialized client, returns a position
  with three encrypted fields, and that its \<open>createdAt\<close> equals its \<open>lastUpdated\<close>. Two
  things stand against it, shown here for the collateral 2000000000 and the debt 0. The
  two time stamps are filled by two calls of \<open>Date.now()\<close>, one after the other, instead
  of one reading used twice: with a cipher that accepts the nonce of 12 bytes, on a clock
  that advances between the two calls, the position carries two different time stamps.
  And with a cipher that takes a nonce of 8 bytes, as those of the package, no position
  is returned at all: the first \<open>encryptData\<close> fails and the call throws.
\<close>

theorem encryptPositionData_defects:
  "\<not> isl (fst (encryptPositionData sample_env 2000000000 0 sample_owner sample_client sample_world))
   \<and> createdAt (projr (fst (encryptPositionData sample_env 2000000000 0 sample_owner
          sample_client sample_world))) = 1700000000001
   \<and> lastUpdated (projr (fst (encryptPositionData sample_env 2000000000 0 sample_owner
          sample_client sample_world))) = 1700000000002
   \<and> createdAt (projr (fst (encryptPositionData sample_env 2000000000 0 sample_owner
          sample_client sample_world)))
     \<noteq> lastUpdated (projr (fst (encryptPositionData sample_env 2000000000 0 sample_owner
          sample_client sample_world)))
   \<and> fst (encryptPositionData counter_mode_env 2000000000 0 sample_owner sample_client sample_world)
     = Inl (new_Error ''Position encryption failed: Error: Data encryption failed: Error: nonce must be of length 8'')"
proof -
  have h: "- (256 ^ 64 div 2) \<le> (2000000000::int)" "(2000000000::int) < 256 ^ 64"
    "- (256 ^ 64 div 2) \<le> (0::int)" "(0::int) < 256 ^ 64"
    by simp_all
  from encryptPositionData_success [OF sample_client_initialized sample_cipher_ok h,
      of sample_owner sample_world]
  obtain pos w' where
    r: "encryptPositionData sample_env 2000000000 0 sample_owner sample_client sample_world
          = (Inr pos, w')"
    and t: "createdAt pos = clock sample_env (clock_pos sample_world + 1)"
      "lastUpdated pos = clock sample_env (clock_pos sample_world + 2)"
    by blast
  from t have "createdAt pos = 1700000000001" "lastUpdated pos = 1700000000002"
    by (simp_all add: sample_env_def sample_world_def)
  with r have stamps:
    "\<not> isl (fst (encryptPositionData sample_env 2000000000 0 sample_owner sample_client sample_world))
     \<and> createdAt (projr (fst (encryptPositionData sample_env 2000000000 0 sample_owner
          sample_client sample_world))) = 1700000000001
     \<and> lastUpdated (projr (fst (encryptPositionData sample_env 2000000000 0 sample_owner
          sample_client sample_world))) = 1700000000002
     \<and> createdAt (projr (fst (encryptPositionData sample_env 2000000000 0 sample_owner
          sample_client sample_world)))
       \<noteq> lastUpdated (projr (fst (encryptPositionData sample_env 2000000000 0 sample_owner
          sample_client sample_world)))"
    by simp
  have "dataBytes (JBigInt 2000000000)
      = Inr (map (\<lambda>i. word_of_int (2000000000 div 256 ^ i)) [0 ..< 64])"
    by (simp add: dataBytes_def serializeLE_def)
  from encryptData_with_key [OF this, of counter_mode_env None]
  have first: "fst (encryptData counter_mode_env (JBigInt 2000000000)
                  \<lparr>opt_algorithm = None, opt_key = Some k\<rparr> w)
      = Inl (new_Error ''Data encryption failed: Error: nonce must be of length 8'')" for k w
    by (simp add: Let_def counter_mode_env_def counter_mode_encrypt_def new_Error_def
        error_toString_def)
  have "fst (encryptPositionData counter_mode_env 2000000000 0 sample_owner sample_client sample_world)
     = Inl (new_Error ''Position encryption failed: Error: Data encryption failed: Error: nonce must be of length 8'')"
    using sample_client_initialized first
    by (simp add: encryptPositionData_def Promise_all3_def Let_def split_def new_Error_def
        error_toString_def split: sum.splits)
  with stamps show ?thesis
    by blast
qed

text \<open>
  Claim C8. Opening a position is all-or-nothing: when the encryption of any one of the
  three fields fails (the three calls of \<open>encryptData\<close>, in the worlds in which
  \<open>encryptPositionData\<close> makes them), no position is returned; the error is rethrown as
  \<open>Position encryption failed: ...\<close>.
\<close>

theorem encryptPositionData_all_or_nothing:
  assumes "isInitialized c"
    and "let (pKey, w1) = generateRandomBytes E 32 w;
             (pId, w2) = generatePositionId E w1;
             opts = \<lparr>opt_algorithm = None, opt_key = Some pKey\<rparr>;
             (r1, w3) = encryptData E (JBigInt col) opts w2;
             (r2, w4) = encryptData E (JBigInt debt) opts w3;
             (r3, w5) = encryptData E (JString (toBase58 own)) opts w4
         in isl r1 \<or> isl r2 \<or> isl r3"
  shows "\<exists>e. fst (encryptPositionData E col debt own c w)
           = Inl (new_Error (''Position encryption failed: '' @ error_toString e))"
  using assms
  by (auto simp: encryptPositionData_def Promise_all3_def Let_def split_def isl_def
      split: sum.splits)

theorem encryptPositionData_all_or_nothing_witness:
  "isInitialized sample_client
   \<and> (let (pKey, w1) = generateRandomBytes sample_env 32 sample_world;
           (pId, w2) = generatePositionId sample_env w1;
           opts = \<lparr>opt_algorithm = None, opt_key = Some pKey\<rparr>;
           (r1, w3) = encryptData sample_env (JBigInt (2 ^ 512)) opts w2;
           (r2, w4) = encryptData sample_env (JBigInt 0) opts w3;
           (r3, w5) = encryptData sample_env (JString (toBase58 sample_owner)) opts w4
       in isl r1 \<or> isl r2 \<or> isl r3)
   \<and> (\<exists>e. fst (encryptPositionData sample_env (2 ^ 512) 0 sample_owner sample_client sample_world)
           = Inl (new_Error (''Position encryption failed: '' @ error_toString e)))"
proof -
  have "dataBytes (JBigInt (2 ^ 512))
          = Inl (JsError ''EncodingError'' ''value does not fit the byte length'')"
    by (simp add: dataBytes_def serializeLE_def)
  then have h: "let (pKey, w1) = generateRandomBytes sample_env 32 sample_world;
           (pId, w2) = generatePositionId sample_env w1;
           opts = \<lparr>opt_algorithm = None, opt_key = Some pKey\<rparr>;
           (r1, w3) = encryptData sample_env (JBigInt (2 ^ 512)) opts w2;
           (r2, w4) = encryptData sample_env (JBigInt 0) opts w3;
           (r3, w5) = encryptData sample_env (JString (toBase58 sample_owner)) opts w4
       in isl r1 \<or> isl r2 \<or> isl r3"
    by (simp add: Let_def split_def encryptData_dataBytes_fails)
  from encryptPositionData_all_or_nothing [OF sample_client_initialized h]
  show ?thesis using sample_client_initialized h by blast
qed

section \<open>The registry of callbacks\<close>

text \<open>
  Claim C5 asks that registering a second computation for a key that is already
  registered fails with \<open>DuplicateComputationError\<close> and leaves the first callback in
  place. In the sample environment, two calls of \<open>createHealthFactorComputation\<close> for the
  position \<open>pos_1\<close> both succeed, and after the second call the key holds the function
  object created by the second call (\<open>cb_id = 1\<close>), not the one of the first (\<open>cb_id = 0\<close>).
\<close>

theorem second_registration_replaces_callback:
  "fst first_registration = Inr \<lparr>computationOffset = 7\<rparr>
   \<and> computationCallbacks (fst (snd first_registration))
       = [(''pos_1-health_factor'',
           \<lparr>cb_id = 0, cb_positionId = ''pos_1'', cb_computationType = ''health_factor''\<rparr>)]
   \<and> fst second_registration = Inr \<lparr>computationOffset = 7\<rparr>
   \<and> computationCallbacks (fst (snd second_registration))
       = [(''pos_1-health_factor'',
           \<lparr>cb_id = 1, cb_positionId = ''pos_1'', cb_computationType = ''health_factor''\<rparr>)]"
  by (simp add: first_registration_value second_registration_value)

text \<open>
  Claim C5, amended. Registering a computation for a key never fails and keeps no record
  of a pending state: \<open>registerComputationCallback\<close> stores the newly created callback
  under the key \<open>positionId-computationType\<close>, replacing the callback that the key held
  before, and leaves every other key as it was; when the key was present the number of
  entries does not change. A call of \<open>createHealthFactorComputation\<close> whose submission is
  confirmed with a reference returns that reference and registers in this way, whether
  or not the key was registered before.
\<close>

theorem registerComputationCallback_overwrites:
  "map_of (computationCallbacks (fst (registerComputationCallback pId ty c w)))
     = (map_of (computationCallbacks c))
         (pId @ ''-'' @ ty \<mapsto>
            \<lparr>cb_id = next_fn w, cb_positionId = pId, cb_computationType = ty\<rparr>)
   \<and> length (computationCallbacks (fst (registerComputationCallback pId ty c w)))
     = (if pId @ ''-'' @ ty \<in> fst ` set (computationCallbacks c)
        then length (computationCallbacks c)
        else Suc (length (computationCallbacks c)))
   \<and> (isInitialized c \<and> arciumProgram c \<noteq> None
        \<and> network E (submissions w)
              \<lparr>inputs = [data ec, data ed, data ep], callback_type = ''health_factor'',
               callback_positionId = pId, circuitId = ''health_factor_v1''\<rparr>
            = Confirmed None logs
        \<and> extractComputationReference logs = Inr r
      \<longrightarrow> createHealthFactorComputation E ec ed ep pId c w
            = (Inr r, registerComputationCallback pId ''health_factor'' c
                        (w\<lparr>submissions := submissions w + 1\<rparr>)))"
proof -
  have "map_of (computationCallbacks (fst (registerComputationCallback pId ty c w)))
     = (map_of (computationCallbacks c))
         (pId @ ''-'' @ ty \<mapsto>
            \<lparr>cb_id = next_fn w, cb_positionId = pId, cb_computationType = ty\<rparr>)"
    by (simp add: registerComputationCallback_def Let_def update_conv')
  moreover have "length (computationCallbacks (fst (registerComputationCallback pId ty c w)))
     = (if pId @ ''-'' @ ty \<in> fst ` set (computationCallbacks c)
        then length (computationCallbacks c)
        else Suc (length (computationCallbacks c)))"
    by (simp add: registerComputationCallback_def Let_def length_AList_update)
  moreover have "createHealthFactorComputation E ec ed ep pId c w
            = (Inr r, registerComputationCallback pId ''health_factor'' c
                        (w\<lparr>submissions := submissions w + 1\<rparr>))"
    if "isInitialized c" and "arciumProgram c \<noteq> None"
      and "network E (submissions w)
              \<lparr>inputs = [data ec, data ed, data ep], callback_type = ''health_factor'',
               callback_positionId = pId, circuitId = ''health_factor_v1''\<rparr>
            = Confirmed None logs"
      and "extractComputationReference logs = Inr r"
    using that by (simp add: createHealthFactorComputation_def Let_def)
  ultimately show ?thesis by blast
qed

theorem registerComputationCallback_overwrites_witness:
  "isInitialized (fst (snd first_registration))
   \<and> arciumProgram (fst (snd first_registration)) \<noteq> None
   \<and> network sample_env (submissions (snd (snd first_registration)))
         \<lparr>inputs = [data sample_input, data sample_input, data sample_input],
          callback_type = ''health_factor'', callback_positionId = ''pos_1'',
          circuitId = ''health_factor_v1''\<rparr>
       = Confirmed None (Some [''Program log: Computation created: 7''])
   \<and> extractComputationReference (Some [''Program log: Computation created: 7''])
       = Inr \<lparr>computationOffset = 7\<rparr>
   \<and> map_of (computationCallbacks (fst (registerComputationCallback ''pos_1'' ''health_factor''
          (fst (snd first_registration)) (snd (snd first_registration)))))
       = (map_of (computationCallbacks (fst (snd first_registration))))
           (''pos_1-health_factor'' \<mapsto>
              \<lparr>cb_id = 1, cb_positionId = ''pos_1'', cb_computationType = ''health_factor''\<rparr>)
   \<and> length (computationCallbacks (fst (registerComputationCallback ''pos_1'' ''health_factor''
          (fst (snd first_registration)) (snd (snd first_registration)))))
       = length (computationCallbacks (fst (snd first_registration)))
   \<and> createHealthFactorComputation sample_env sample_input sample_input sample_input ''pos_1''
          (fst (snd first_registration)) (snd (snd first_registration))
       = (Inr \<lparr>computationOffset = 7\<rparr>,
          registerComputationCallback ''pos_1'' ''health_factor'' (fst (snd first_registration))
            (snd (snd first_registration)\<lparr>submissions := 3\<rparr>))"
proof -
  have c: "isInitialized (fst (snd first_registration))"
    "arciumProgram (fst (snd first_registration)) \<noteq> None"
    by (simp_all add: first_registration_value sample_client_def initialize_def sample_env_def
        new_client_def)
  have n: "network sample_env (submissions (snd (snd first_registration)))
         \<lparr>inputs = [data sample_input, data sample_input, data sample_input],
          callback_type = ''health_factor'', callback_positionId = ''pos_1'',
          circuitId = ''health_factor_v1''\<rparr>
       = Confirmed None (Some [''Program log: Computation created: 7''])"
    by (simp add: first_registration_value sample_env_def sample_network_def)
  from registerComputationCallback_overwrites [of "''pos_1''" "''health_factor''"
      "fst (snd first_registration)" "snd (snd first_registration)" sample_env
      sample_input sample_input sample_input "Some [''Program log: Computation created: 7'']"
      "\<lparr>computationOffset = 7\<rparr>"]
  show ?thesis
    using c n sample_reference by (simp add: first_registration_value)
qed

section \<open>Submission failures\<close>

text \<open>
  Claim C9 asks that a failed submission is repeated up to \<open>retryAttempts\<close> times before
  the error reaches the caller. In the sample environment the first submission fails in
  transport and every later one is confirmed: \<open>createHealthFactorComputation\<close> throws
  after that one submission, although the next submission, made by a caller, succeeds.
\<close>

theorem createHealthFactorComputation_does_not_retry:
  "fst failed_submission
     = Inl (new_Error ''Health factor computation failed: Error: failed to send transaction'')
   \<and> submissions (snd (snd failed_submission)) = 1
   \<and> fst resubmission = Inr \<lparr>computationOffset = 7\<rparr>"
proof -
  have c: "arciumProgram sample_client \<noteq> None"
    by (simp add: sample_client_def initialize_def sample_env_def new_client_def)
  have n: "network sample_env
             (submissions \<lparr>rng_pos = 0, clock_pos = 0, submissions = 1, next_fn = 0\<rparr>) req
             = Confirmed None (Some [''Program log: Computation created: 7''])" for req
    by (simp add: sample_env_def sample_network_def)
  have "fst resubmission = Inr \<lparr>computationOffset = 7\<rparr>"
    unfolding resubmission_def failed_submission_value
    using createHealthFactorComputation_confirmed [OF sample_client_initialized c n sample_reference]
    by simp
  then show ?thesis
    by (simp add: failed_submission_value)
qed

text \<open>
  Claim C9, amended. \<open>createHealthFactorComputation\<close> submits once: when building,
  sending or confirming the transaction throws, the call has used exactly one submission
  and throws at once \<open>Health factor computation failed: ...\<close>, with the client's state
  unchanged; \<open>retryAttempts\<close> of \<open>MXEConfiguration\<close> is not read.
\<close>

theorem createHealthFactorComputation_single_attempt:
  assumes "isInitialized c" and "arciumProgram c \<noteq> None"
    and "network E (submissions w)
           \<lparr>inputs = [data ec, data ed, data ep], callback_type = ''health_factor'',
            callback_positionId = pId, circuitId = ''health_factor_v1''\<rparr>
         \<in> {BuildFails e, SendFails e, ConfirmFails e}"
  shows "createHealthFactorComputation E ec ed ep pId c w
           = (Inl (new_Error (''Health factor computation failed: '' @ error_toString e)),
              c, w\<lparr>submissions := submissions w + 1\<rparr>)"
  using assms by (auto simp: createHealthFactorComputation_def Let_def)

theorem createHealthFactorComputation_single_attempt_witness:
  "isInitialized sample_client \<and> arciumProgram sample_client \<noteq> None
   \<and> network sample_env (submissions sample_world)
         \<lparr>inputs = [data sample_input, data sample_input, data sample_input],
          callback_type = ''health_factor'', callback_positionId = ''pos_1'',
          circuitId = ''health_factor_v1''\<rparr>
       \<in> {BuildFails (new_Error ''failed to send transaction''),
           SendFails (new_Error ''failed to send transaction''),
           ConfirmFails (new_Error ''failed to send transaction'')}
   \<and> createHealthFactorComputation sample_env sample_input sample_input sample_input ''pos_1''
         sample_client sample_world
       = (Inl (new_Error ''Health factor computation failed: Error: failed to send transaction''),
          sample_client, sample_world\<lparr>submissions := 1\<rparr>)"
proof -
  have c: "arciumProgram sample_client \<noteq> None"
    by (simp add: sample_client_def initialize_def sample_env_def new_client_def)
  have n: "network sample_env (submissions sample_world)
         \<lparr>inputs = [data sample_input, data sample_input, data sample_input],
          callback_type = ''health_factor'', callback_positionId = ''pos_1'',
          circuitId = ''health_factor_v1''\<rparr>
       \<in> {BuildFails (new_Error ''failed to send transaction''),
           SendFails (new_Error ''failed to send transaction''),
           ConfirmFails (new_Error ''failed to send transaction'')}"
    by (simp add: sample_env_def sample_network_def sample_world_def)
  from createHealthFactorComputation_single_attempt [OF sample_client_initialized c n]
  show ?thesis
    using sample_client_initialized c n
    by (simp add: new_Error_def error_toString_def sample_world_def)
qed

section \<open>Dispatch on the kind of a result\<close>

text \<open>
  Claim C6. For a finalized result whose payload parses to a value other than \<open>null\<close>,
  \<open>monitorComputation\<close> dispatches on the payload's \<open>type\<close>: \<open>health_factor\<close> goes to
  \<open>processHealthFactorResult\<close>, \<open>liquidation_check\<close> goes to \<open>processLiquidationResult\<close>
  (the function takes the reference only, so this holds whatever kind was submitted), and
  any other tag, or none, makes \<open>monitorComputation\<close> fail with the error
  \<open>Unknown computation type\<close>, rethrown as \<open>Computation monitoring failed: ...\<close>.
\<close>

theorem monitorComputation_dispatch:
  assumes "awaitComputationFinalization E (computationOffset computationRef) = Inr result"
    and "JSON_parse E result = Inr callbackData"
    and "get_property callbackData ''type'' = Inr ty"
    and "get_property callbackData ''positionId'' = Inr pId"
  shows "monitorComputation E computationRef w =
     (if ty = Some (JStr ''health_factor'')
        then apfst Inr (processHealthFactorResult E
               (int_toString 10 (computationOffset computationRef)) pId w)
      else if ty = Some (JStr ''liquidation_check'')
        then apfst Inr (processLiquidationResult E
               (int_toString 10 (computationOffset computationRef)) pId w)
      else (Inl (new_Error ''Computation monitoring failed: Error: Unknown computation type''), w))"
  using assms
  by (simp add: monitorComputation_def Let_def split_def apfst_def map_prod_def
      new_Error_def error_toString_def)

theorem monitorComputation_dispatch_witness:
  "awaitComputationFinalization sample_env (computationOffset \<lparr>computationOffset = 2\<rparr>)
     = Inr ''liquidation''
   \<and> JSON_parse sample_env ''liquidation''
     = Inr (JObj [(''type'', JStr ''liquidation_check''), (''positionId'', JStr ''pos_1'')])
   \<and> get_property (JObj [(''type'', JStr ''liquidation_check''), (''positionId'', JStr ''pos_1'')])
         ''type'' = Inr (Some (JStr ''liquidation_check''))
   \<and> get_property (JObj [(''type'', JStr ''liquidation_check''), (''positionId'', JStr ''pos_1'')])
         ''positionId'' = Inr (Some (JStr ''pos_1''))
   \<and> monitorComputation sample_env \<lparr>computationOffset = 2\<rparr> sample_world
     = apfst Inr (processLiquidationResult sample_env ''2'' (Some (JStr ''pos_1'')) sample_world)
   \<and> awaitComputationFinalization sample_env (computationOffset \<lparr>computationOffset = 3\<rparr>)
     = Inr ''interest''
   \<and> JSON_parse sample_env ''interest''
     = Inr (JObj [(''type'', JStr ''interest_calculation''), (''positionId'', JStr ''pos_1'')])
   \<and> get_property (JObj [(''type'', JStr ''interest_calculation''), (''positionId'', JStr ''pos_1'')])
         ''type'' = Inr (Some (JStr ''interest_calculation''))
   \<and> get_property (JObj [(''type'', JStr ''interest_calculation''), (''positionId'', JStr ''pos_1'')])
         ''positionId'' = Inr (Some (JStr ''pos_1''))
   \<and> monitorComputation sample_env \<lparr>computationOffset = 3\<rparr> sample_world
     = (Inl (new_Error ''Computation monitoring failed: Error: Unknown computation type''),
        sample_world)"
proof -
  have a2: "awaitComputationFinalization sample_env (computationOffset \<lparr>computationOffset = 2\<rparr>)
     = Inr ''liquidation''"
    and a3: "awaitComputationFinalization sample_env (computationOffset \<lparr>computationOffset = 3\<rparr>)
     = Inr ''interest''"
    by (simp_all add: sample_env_def sample_finalization_def)
  have p2: "JSON_parse sample_env ''liquidation''
     = Inr (JObj [(''type'', JStr ''liquidation_check''), (''positionId'', JStr ''pos_1'')])"
    and p3: "JSON_parse sample_env ''interest''
     = Inr (JObj [(''type'', JStr ''interest_calculation''), (''positionId'', JStr ''pos_1'')])"
    by (simp_all add: sample_env_def sample_parse_def)
  have t2: "get_property (JObj [(''type'', JStr ''liquidation_check''), (''positionId'', JStr ''pos_1'')])
         ''type'' = Inr (Some (JStr ''liquidation_check''))"
    and i2: "get_property (JObj [(''type'', JStr ''liquidation_check''), (''positionId'', JStr ''pos_1'')])
         ''positionId'' = Inr (Some (JStr ''pos_1''))"
    and t3: "get_property (JObj [(''type'', JStr ''interest_calculation''), (''positionId'', JStr ''pos_1'')])
         ''type'' = Inr (Some (JStr ''interest_calculation''))"
    and i3: "get_property (JObj [(''type'', JStr ''interest_calculation''), (''positionId'', JStr ''pos_1'')])
         ''positionId'' = Inr (Some (JStr ''pos_1''))"
    by (simp_all add: get_property_def)
  from monitorComputation_dispatch [OF a2 p2 t2 i2, of sample_world]
  have m2: "monitorComputation sample_env \<lparr>computationOffset = 2\<rparr> sample_world
     = apfst Inr (processLiquidationResult sample_env ''2'' (Some (JStr ''pos_1'')) sample_world)"
    by (simp add: sample_offsets_toString)
  from monitorComputation_dispatch [OF a3 p3 t3 i3, of sample_world]
  have m3: "monitorComputation sample_env \<lparr>computationOffset = 3\<rparr> sample_world
     = (Inl (new_Error ''Computation monitoring failed: Error: Unknown computation type''),
        sample_world)"
    by simp
  from a2 p2 t2 i2 m2 a3 p3 t3 i3 m3 show ?thesis
    by blast
qed

end
